theory Spec2Isabelle
  imports Main
begin

section \<open>LinkMasterX: the move-link-revert engine of main.py\<close>

text \<open>
  The program moves a file or folder into a destination folder, leaves a symbolic link
  at the old path, and keeps a JSON ledger of these operations so that each can be
  reverted. The functions of \<^verbatim>\<open>main.py\<close> are embedded below over an explicit
  world: a filesystem, the platform and the outcome of the external \<^verbatim>\<open>mklink\<close> tool.

  Modelling decisions for the library calls the source makes:
  \<^item> a path is the string the program holds; the filesystem maps each such string to at
    most one entry, and two different spellings are two different names (no drive
    letters, no case folding, no \<open>.\<close> or \<open>..\<close> components);
  \<^item> symbolic links are followed at the named entry itself, at most \<open>max_links\<close> times;
  \<^item> a file holds text; \<^verbatim>\<open>json.dump\<close> and \<^verbatim>\<open>json.load\<close> are modelled on that text, for
    strings of characters below 256 and integer numbers (a document with a float or a
    higher \<^verbatim>\<open>\\u\<close> escape is outside the model and is treated as undecodable);
  \<^item> Python values that flow through the ledger are the values of type \<open>json\<close>.
\<close>

subsection \<open>Python values and exceptions\<close>

datatype json =
    JNull
  | JBool bool
  | JNum int
  | JStr string
  | JArr "json list"
  | JObj "(string \<times> json) list"

datatype exn =
    NotImplementedError
  | FileExistsError
  | FileNotFoundError
  | IsADirectoryError
  | NotADirectoryError
  | OSError
  | ShutilError
  | CalledProcessError int
  | JSONDecodeError
  | TypeError
  | KeyError
  | AttributeError
  | PlainException

text \<open>\<^verbatim>\<open>for record in value\<close>: a list yields its elements, a dict its keys, a string its
  characters; the other values are not iterable.\<close>

fun py_iter :: "json \<Rightarrow> exn + json list" where
  "py_iter (JArr xs) = Inr xs"
| "py_iter (JObj kvs) = Inr (map (\<lambda>kv. JStr (fst kv)) kvs)"
| "py_iter (JStr s) = Inr (map (\<lambda>c. JStr [c]) s)"
| "py_iter v = Inl TypeError"

text \<open>\<^verbatim>\<open>value[key]\<close> with a string key: only a dict can be subscripted by a string.\<close>

fun py_getitem :: "json \<Rightarrow> string \<Rightarrow> exn + json" where
  "py_getitem (JObj kvs) k = (case map_of kvs k of None \<Rightarrow> Inl KeyError | Some v \<Rightarrow> Inr v)"
| "py_getitem v k = Inl TypeError"

text \<open>\<^verbatim>\<open>value.append(x)\<close>: only a list has \<^verbatim>\<open>append\<close>.\<close>

fun py_append :: "json \<Rightarrow> json \<Rightarrow> exn + json" where
  "py_append (JArr xs) x = Inr (JArr (xs @ [x]))"
| "py_append v x = Inl AttributeError"

subsection \<open>JSON text\<close>

definition backslash :: char where
  "backslash = CHR 0x5C"

definition quote :: char where
  "quote = CHR 0x22"

text \<open>\<^verbatim>\<open>json.dump(value, f, indent=2)\<close>: the encoder escapes every character outside the
  printable ASCII range, puts each item of a list or dict on a line of its own, indented by
  two spaces per level, and writes \<^verbatim>\<open>[]\<close> and \<^verbatim>\<open>{}\<close> for the empty ones.\<close>

definition hexdigit :: "nat \<Rightarrow> char" where
  "hexdigit n = ''0123456789abcdef'' ! n"

definition escape_char :: "char \<Rightarrow> string" where
  "escape_char c =
     (if c = quote then [backslash, quote]
      else if c = backslash then [backslash, backslash]
      else if c = CHR 0x0A then [backslash, CHR ''n'']
      else if c = CHR 0x0D then [backslash, CHR ''r'']
      else if c = CHR 0x09 then [backslash, CHR ''t'']
      else if c = CHR 0x08 then [backslash, CHR ''b'']
      else if c = CHR 0x0C then [backslash, CHR ''f'']
      else if 32 \<le> (of_char c :: nat) \<and> (of_char c :: nat) \<le> 126 then [c]
      else [backslash, CHR ''u'', CHR ''0'', CHR ''0'',
            hexdigit ((of_char c :: nat) div 16), hexdigit ((of_char c :: nat) mod 16)])"

definition encode_string :: "string \<Rightarrow> string" where
  "encode_string s = quote # concat (map escape_char s) @ [quote]"

definition digit_char :: "nat \<Rightarrow> char" where
  "digit_char n = ''0123456789'' ! n"

function digits_of :: "nat \<Rightarrow> string" where
  "digits_of n = (if n < 10 then [digit_char n] else digits_of (n div 10) @ [digit_char (n mod 10)])"
  by pat_completeness auto
termination
  by (relation "measure id") auto

declare digits_of.simps [simp del]

definition encode_int :: "int \<Rightarrow> string" where
  "encode_int i = (if i < 0 then CHR ''-'' # digits_of (nat (- i)) else digits_of (nat i))"

definition newline_indent :: "nat \<Rightarrow> string" where
  "newline_indent level = CHR 0x0A # replicate (2 * level) CHR '' ''"

fun dumps :: "nat \<Rightarrow> json \<Rightarrow> string"
  and dumps_items :: "nat \<Rightarrow> json list \<Rightarrow> string"
  and dumps_members :: "nat \<Rightarrow> (string \<times> json) list \<Rightarrow> string" where
  "dumps l JNull = ''null''"
| "dumps l (JBool b) = (if b then ''true'' else ''false'')"
| "dumps l (JNum i) = encode_int i"
| "dumps l (JStr s) = encode_string s"
| "dumps l (JArr []) = ''[]''"
| "dumps l (JArr (x # xs)) =
     ''['' @ newline_indent (Suc l) @ dumps (Suc l) x @ dumps_items (Suc l) xs @ newline_indent l @ '']''"
| "dumps l (JObj []) = ''{}''"
| "dumps l (JObj (kv # kvs)) =
     ''{'' @ newline_indent (Suc l) @ encode_string (fst kv) @ '': '' @ dumps (Suc l) (snd kv)
       @ dumps_members (Suc l) kvs @ newline_indent l @ ''}''"
| "dumps_items l [] = []"
| "dumps_items l (x # xs) = '','' @ newline_indent l @ dumps l x @ dumps_items l xs"
| "dumps_members l [] = []"
| "dumps_members l (kv # kvs) =
     '','' @ newline_indent l @ encode_string (fst kv) @ '': '' @ dumps l (snd kv) @ dumps_members l kvs"

definition json_dumps :: "json \<Rightarrow> string" where
  "json_dumps v = dumps 0 v"

text \<open>\<^verbatim>\<open>json.load(f)\<close>: a recursive-descent decoder. The first argument of the three
  mutually recursive functions bounds the number of nested calls; \<open>json_loads\<close> starts
  them with the length of the text, which is enough for every text the encoder writes.\<close>

definition is_ws :: "char \<Rightarrow> bool" where
  "is_ws c = (c = CHR '' '' \<or> c = CHR 0x09 \<or> c = CHR 0x0A \<or> c = CHR 0x0D)"

definition skip_ws :: "string \<Rightarrow> string" where
  "skip_ws s = dropWhile is_ws s"

definition starts :: "string \<Rightarrow> string \<Rightarrow> bool" where
  "starts p s = (take (length p) s = p)"

definition hex_val :: "char \<Rightarrow> nat option" where
  "hex_val c =
     (let n = (of_char c :: nat) in
      if 48 \<le> n \<and> n \<le> 57 then Some (n - 48)
      else if 97 \<le> n \<and> n \<le> 102 then Some (n - 87)
      else if 65 \<le> n \<and> n \<le> 70 then Some (n - 55)
      else None)"

definition unescape :: "char \<Rightarrow> char option" where
  "unescape e =
     (if e = quote then Some quote
      else if e = backslash then Some backslash
      else if e = CHR ''/'' then Some CHR ''/''
      else if e = CHR ''b'' then Some (CHR 0x08)
      else if e = CHR ''f'' then Some (CHR 0x0C)
      else if e = CHR ''n'' then Some (CHR 0x0A)
      else if e = CHR ''r'' then Some (CHR 0x0D)
      else if e = CHR ''t'' then Some (CHR 0x09)
      else None)"

text \<open>The body of a string literal, after its opening quote.\<close>

fun parse_str :: "string \<Rightarrow> string \<Rightarrow> (string \<times> string) option" where
  "parse_str acc [] = None"
| "parse_str acc (c # cs) =
     (if c = quote then Some (rev acc, cs)
      else if c = backslash then
        (case cs of
           [] \<Rightarrow> None
         | e # r \<Rightarrow>
             if e = CHR ''u'' then
               (case r of
                  h1 # h2 # h3 # h4 # r' \<Rightarrow>
                    (case (hex_val h1, hex_val h2, hex_val h3, hex_val h4) of
                       (Some a, Some b, Some c', Some d) \<Rightarrow>
                         if a = 0 \<and> b = 0 then parse_str (char_of (16 * c' + d) # acc) r'
                         else None
                     | _ \<Rightarrow> None)
                | _ \<Rightarrow> None)
             else (case unescape e of None \<Rightarrow> None | Some x \<Rightarrow> parse_str (x # acc) r))
      else if (of_char c :: nat) < 32 then None
      else parse_str (c # acc) cs)"

definition is_digit :: "char \<Rightarrow> bool" where
  "is_digit c = (48 \<le> (of_char c :: nat) \<and> (of_char c :: nat) \<le> 57)"

definition nat_of_digits :: "string \<Rightarrow> nat" where
  "nat_of_digits ds = foldl (\<lambda>n c. 10 * n + ((of_char c :: nat) - 48)) 0 ds"

text \<open>An integer literal; a literal that goes on as a fraction or an exponent is a float,
  which the model leaves out.\<close>

definition parse_nat :: "string \<Rightarrow> (nat \<times> string) option" where
  "parse_nat s =
     (let ds = takeWhile is_digit s; r = dropWhile is_digit s in
      if ds = [] \<or> (hd ds = CHR ''0'' \<and> length ds > 1) then None
      else if r \<noteq> [] \<and> hd r \<in> {CHR ''.'', CHR ''e'', CHR ''E''} then None
      else Some (nat_of_digits ds, r))"

definition parse_int :: "string \<Rightarrow> (json \<times> string) option" where
  "parse_int s =
     (if starts ''-'' s then
        (case parse_nat (tl s) of None \<Rightarrow> None | Some (n, r) \<Rightarrow> Some (JNum (- int n), r))
      else (case parse_nat s of None \<Rightarrow> None | Some (n, r) \<Rightarrow> Some (JNum (int n), r)))"

text \<open>A dict keeps the place of a key it has already and takes the new value.\<close>

definition dict_set :: "(string \<times> json) list \<Rightarrow> string \<Rightarrow> json \<Rightarrow> (string \<times> json) list" where
  "dict_set kvs k v =
     (if k \<in> fst ` set kvs then map (\<lambda>kv. if fst kv = k then (k, v) else kv) kvs
      else kvs @ [(k, v)])"

fun parse_value :: "nat \<Rightarrow> string \<Rightarrow> (json \<times> string) option"
  and parse_elements :: "nat \<Rightarrow> json list \<Rightarrow> string \<Rightarrow> (json \<times> string) option"
  and parse_members :: "nat \<Rightarrow> (string \<times> json) list \<Rightarrow> string \<Rightarrow> (json \<times> string) option" where
  "parse_value 0 s = None"
| "parse_value (Suc n) s =
     (if starts ''null'' s then Some (JNull, drop 4 s)
      else if starts ''true'' s then Some (JBool True, drop 4 s)
      else if starts ''false'' s then Some (JBool False, drop 5 s)
      else if starts [quote] s then
        (case parse_str [] (tl s) of None \<Rightarrow> None | Some (t, r) \<Rightarrow> Some (JStr t, r))
      else if starts ''['' s then
        (let r = skip_ws (tl s) in
         if starts '']'' r then Some (JArr [], tl r) else parse_elements n [] r)
      else if starts ''{'' s then
        (let r = skip_ws (tl s) in
         if starts ''}'' r then Some (JObj [], tl r) else parse_members n [] r)
      else parse_int s)"
| "parse_elements 0 acc s = None"
| "parse_elements (Suc n) acc s =
     (case parse_value n s of
        None \<Rightarrow> None
      | Some (v, r) \<Rightarrow>
          (let r' = skip_ws r in
           if starts '','' r' then parse_elements n (acc @ [v]) (skip_ws (tl r'))
           else if starts '']'' r' then Some (JArr (acc @ [v]), tl r')
           else None))"
| "parse_members 0 acc s = None"
| "parse_members (Suc n) acc s =
     (if \<not> starts [quote] s then None
      else (case parse_str [] (tl s) of
              None \<Rightarrow> None
            | Some (k, r) \<Rightarrow>
                (let r1 = skip_ws r in
                 if \<not> starts '':'' r1 then None
                 else (case parse_value n (skip_ws (tl r1)) of
                         None \<Rightarrow> None
                       | Some (v, r2) \<Rightarrow>
                           (let r3 = skip_ws r2 in
                            if starts '','' r3 then parse_members n (dict_set acc k v) (skip_ws (tl r3))
                            else if starts ''}'' r3 then Some (JObj (dict_set acc k v), tl r3)
                            else None)))))"

definition json_loads :: "string \<Rightarrow> json option" where
  "json_loads s =
     (case parse_value (length s) (skip_ws s) of
        None \<Rightarrow> None
      | Some (v, r) \<Rightarrow> if skip_ws r = [] then Some v else None)"


text \<open>What can stand right after a value in the encoder's output, and the characters a
  value can begin with.\<close>

definition delimited :: "string \<Rightarrow> bool" where
  "delimited rest = (rest = [] \<or> hd rest \<in> {CHR '','', CHR 0x0A, CHR '']'', CHR ''}''})"



subsection \<open>Paths\<close>

type_synonym path = string

definition slash :: char where
  "slash = CHR ''/''"

text \<open>The separators of \<^verbatim>\<open>os.path\<close>: \<^verbatim>\<open>ntpath\<close> splits at both, \<^verbatim>\<open>posixpath\<close> at the
  slash only; \<^verbatim>\<open>os.path.join\<close> inserts \<^verbatim>\<open>os.sep\<close>.\<close>

definition seps :: "bool \<Rightarrow> char list" where
  "seps win = (if win then [backslash, slash] else [slash])"

definition sep :: "bool \<Rightarrow> char" where
  "sep win = (if win then backslash else slash)"

text \<open>\<^verbatim>\<open>src.rstrip("\\/")\<close> removes trailing backslashes and slashes on every platform.\<close>

definition rstrip_seps :: "string \<Rightarrow> string" where
  "rstrip_seps s = rev (dropWhile (\<lambda>c. c = backslash \<or> c = slash) (rev s))"

definition basename :: "bool \<Rightarrow> path \<Rightarrow> string" where
  "basename win p = rev (takeWhile (\<lambda>c. c \<notin> set (seps win)) (rev p))"

definition join :: "bool \<Rightarrow> path \<Rightarrow> string \<Rightarrow> path" where
  "join win a b =
     (if b \<noteq> [] \<and> hd b \<in> set (seps win) then b
      else if a = [] \<or> last a \<in> set (seps win) then a @ b
      else a @ [sep win] @ b)"

text \<open>\<open>under win d p\<close>: \<open>p\<close> names \<open>d\<close> itself or something below the directory \<open>d\<close>.\<close>

definition under :: "bool \<Rightarrow> path \<Rightarrow> path \<Rightarrow> bool" where
  "under win d p =
     (p = d \<or> (length d < length p \<and> take (length d) p = d \<and> p ! length d \<in> set (seps win)))"

text \<open>\<^verbatim>\<open>str.strip()\<close> removes the white space of Python at both ends.\<close>

definition is_space :: "char \<Rightarrow> bool" where
  "is_space c = ((of_char c :: nat) \<in> {9, 10, 11, 12, 13, 28, 29, 30, 31, 32, 133, 160})"

definition strip :: "string \<Rightarrow> string" where
  "strip s = rev (dropWhile is_space (rev (dropWhile is_space s)))"

definition HISTORY_FILE :: path where
  "HISTORY_FILE = ''symlink_history.json''"

subsection \<open>The world: filesystem, platform, link tool\<close>

text \<open>A link records the kind \<^verbatim>\<open>mklink\<close> created it with: \<open>True\<close> for \<^verbatim>\<open>mklink /d\<close>.\<close>

datatype node = File string | Dir | Link bool path

record world =
  fs :: "path \<Rightarrow> node option"
  windows :: bool
  mklink_denied :: bool

definition max_links :: nat where
  "max_links = 40"

text \<open>The entry a path leads to once links are followed: \<open>None\<close> when the chain is too
  long, otherwise the last name of the chain, which holds no link (it may hold nothing).\<close>

fun resolve :: "nat \<Rightarrow> (path \<Rightarrow> node option) \<Rightarrow> path \<Rightarrow> path option" where
  "resolve 0 f p = None"
| "resolve (Suc n) f p = (case f p of Some (Link k t) \<Rightarrow> resolve n f t | _ \<Rightarrow> Some p)"

definition stat :: "world \<Rightarrow> path \<Rightarrow> node option" where
  "stat w p = (case resolve max_links (fs w) p of None \<Rightarrow> None | Some q \<Rightarrow> fs w q)"

definition os_path_exists :: "world \<Rightarrow> path \<Rightarrow> bool" where
  "os_path_exists w p = (stat w p \<noteq> None)"

definition os_path_isdir :: "world \<Rightarrow> path \<Rightarrow> bool" where
  "os_path_isdir w p = (stat w p = Some Dir)"

definition os_path_islink :: "world \<Rightarrow> path \<Rightarrow> bool" where
  "os_path_islink w p = (case fs w p of Some (Link k t) \<Rightarrow> True | _ \<Rightarrow> False)"

text \<open>\<^verbatim>\<open>os.unlink\<close> removes the named entry itself; it refuses a directory.\<close>

definition os_unlink :: "world \<Rightarrow> path \<Rightarrow> (exn + unit) \<times> world" where
  "os_unlink w p =
     (case fs w p of
        None \<Rightarrow> (Inl FileNotFoundError, w)
      | Some Dir \<Rightarrow> (Inl IsADirectoryError, w)
      | Some nd \<Rightarrow> (Inr (), w\<lparr>fs := (fs w)(p := None)\<rparr>))"

text \<open>The proper ancestors of a path: its prefixes that end just before a separator.\<close>

definition ancestors :: "bool \<Rightarrow> path \<Rightarrow> path list" where
  "ancestors win p =
     filter (\<lambda>q. q \<noteq> [] \<and> last q \<notin> set (seps win))
       (map (\<lambda>i. take i p) (filter (\<lambda>i. p ! i \<in> set (seps win)) [0..<length p]))"

text \<open>\<^verbatim>\<open>os.makedirs(p, exist_ok=True)\<close>: nothing to do when \<open>p\<close> is a directory already; an
  entry of another kind at \<open>p\<close> or at an ancestor makes it fail; otherwise \<open>p\<close> and its
  missing ancestors become directories.\<close>

definition os_makedirs :: "world \<Rightarrow> path \<Rightarrow> (exn + unit) \<times> world" where
  "os_makedirs w p =
     (if os_path_isdir w p then (Inr (), w)
      else if fs w p \<noteq> None then (Inl FileExistsError, w)
      else let missing = filter (\<lambda>q. \<not> os_path_isdir w q) (ancestors (windows w) p) in
        if \<exists>q \<in> set missing. fs w q \<noteq> None then (Inl NotADirectoryError, w)
        else (Inr (), w\<lparr>fs := (\<lambda>q. if q = p \<or> q \<in> set missing then Some Dir else fs w q)\<rparr>))"

text \<open>Renaming an entry together with everything below it.\<close>

definition move_tree :: "bool \<Rightarrow> (path \<Rightarrow> node option) \<Rightarrow> path \<Rightarrow> path \<Rightarrow> path \<Rightarrow> node option" where
  "move_tree win f src dst =
     (\<lambda>p. if under win dst p then f (src @ drop (length dst) p)
          else if under win src p then None
          else f p)"

text \<open>\<^verbatim>\<open>os.rename\<close> with the copy-and-delete fallback of \<^verbatim>\<open>shutil.move\<close>: the source must
  be there; renaming onto itself does nothing; nothing moves below itself; a destination
  entry that is not a directory is replaced by a source that is not one either.\<close>

definition os_rename :: "world \<Rightarrow> path \<Rightarrow> path \<Rightarrow> (exn + unit) \<times> world" where
  "os_rename w src dst =
     (case fs w src of
        None \<Rightarrow> (Inl FileNotFoundError, w)
      | Some nd \<Rightarrow>
          if src = dst then (Inr (), w)
          else if under (windows w) src dst then (Inl ShutilError, w)
          else if fs w dst \<noteq> None \<and> (nd = Dir \<or> fs w dst = Some Dir) then (Inl OSError, w)
          else (Inr (), w\<lparr>fs := move_tree (windows w) (fs w) src dst\<rparr>))"

text \<open>\<^verbatim>\<open>shutil.move(src, dst)\<close>: when \<open>dst\<close> is an existing directory the source is moved
  \<^emph>\<open>into\<close> it, under its own base name, and that name must be free.\<close>

definition shutil_move :: "world \<Rightarrow> path \<Rightarrow> path \<Rightarrow> (exn + path) \<times> world" where
  "shutil_move w src dst =
     (if os_path_isdir w dst then
        (if src = dst \<and> \<not> os_path_islink w src then (Inr dst, w)
         else let real_dst = join (windows w) dst (basename (windows w) (rstrip_seps src)) in
           if os_path_exists w real_dst then (Inl ShutilError, w)
           else (case os_rename w src real_dst of
                   (Inl e, w') \<Rightarrow> (Inl e, w')
                 | (Inr u, w') \<Rightarrow> (Inr real_dst, w')))
      else (case os_rename w src dst of
              (Inl e, w') \<Rightarrow> (Inl e, w')
            | (Inr u, w') \<Rightarrow> (Inr dst, w')))"

text \<open>\<^verbatim>\<open>open(p, "r")\<close> followed by \<^verbatim>\<open>json.load\<close>.\<close>

definition read_json :: "world \<Rightarrow> path \<Rightarrow> exn + json" where
  "read_json w p =
     (case stat w p of
        None \<Rightarrow> Inl FileNotFoundError
      | Some Dir \<Rightarrow> Inl IsADirectoryError
      | Some (Link k t) \<Rightarrow> Inl OSError
      | Some (File text) \<Rightarrow>
          (case json_loads text of None \<Rightarrow> Inl JSONDecodeError | Some v \<Rightarrow> Inr v))"

text \<open>\<^verbatim>\<open>open(p, "w")\<close> followed by \<^verbatim>\<open>json.dump\<close>: the file the path leads to is created or
  overwritten.\<close>

definition write_json :: "world \<Rightarrow> path \<Rightarrow> json \<Rightarrow> (exn + unit) \<times> world" where
  "write_json w p v =
     (case resolve max_links (fs w) p of
        None \<Rightarrow> (Inl OSError, w)
      | Some q \<Rightarrow>
          if fs w q = Some Dir then (Inl IsADirectoryError, w)
          else (Inr (), w\<lparr>fs := (fs w)(q \<mapsto> File (json_dumps v))\<rparr>))"

text \<open>The \<^verbatim>\<open>mklink\<close> command run through the shell: return code and effect. It fails when
  the host refuses (privilege, developer mode, filesystem) or the link name is taken.\<close>

definition run_mklink :: "world \<Rightarrow> bool \<Rightarrow> path \<Rightarrow> path \<Rightarrow> int \<times> world" where
  "run_mklink w d link target =
     (if mklink_denied w \<or> fs w link \<noteq> None then (1, w)
      else (0, w\<lparr>fs := (fs w)(link \<mapsto> Link d target)\<rparr>))"

subsection \<open>The history ledger\<close>

definition load_history :: "world \<Rightarrow> json" where
  "load_history w =
     (if \<not> os_path_exists w HISTORY_FILE then JArr []
      else (case read_json w HISTORY_FILE of Inr v \<Rightarrow> v | Inl e \<Rightarrow> JArr []))"

definition save_history :: "world \<Rightarrow> json \<Rightarrow> (exn + unit) \<times> world" where
  "save_history w history_list = write_json w HISTORY_FILE history_list"

definition mk_record :: "string \<Rightarrow> string \<Rightarrow> string \<Rightarrow> json" where
  "mk_record original_src final_dst symlink_path =
     JObj [(''original_src'', JStr original_src),
           (''final_dst'', JStr final_dst),
           (''symlink_path'', JStr symlink_path)]"


subsection \<open>Mover, link creator, link remover, validator\<close>

definition move_item :: "world \<Rightarrow> path \<Rightarrow> path \<Rightarrow> (exn + path) \<times> world" where
  "move_item w src dst_folder =
     (let item_name = basename (windows w) (rstrip_seps src);
          new_location = join (windows w) dst_folder item_name
      in case os_makedirs w dst_folder of
           (Inl e, w1) \<Rightarrow> (Inl e, w1)
         | (Inr u, w1) \<Rightarrow>
             (case shutil_move w1 src new_location of
                (Inl e, w2) \<Rightarrow> (Inl e, w2)
              | (Inr r, w2) \<Rightarrow> (Inr new_location, w2)))"

definition create_symlink :: "world \<Rightarrow> path \<Rightarrow> path \<Rightarrow> (exn + unit) \<times> world" where
  "create_symlink w src dst =
     (if \<not> windows w then (Inl NotImplementedError, w)
      else if os_path_exists w src then (Inl FileExistsError, w)
      else (case run_mklink w (os_path_isdir w dst) src dst of
              (rc, w') \<Rightarrow> if rc \<noteq> 0 then (Inl (CalledProcessError rc), w') else (Inr (), w')))"

definition remove_symlink :: "world \<Rightarrow> path \<Rightarrow> (exn + unit) \<times> world" where
  "remove_symlink w symlink_path =
     (if os_path_exists w symlink_path then
        (if os_path_islink w symlink_path then os_unlink w symlink_path
         else (Inl PlainException, w))
      else (Inr (), w))"

text \<open>The validator returns its verdict together with the error boxes it shows.\<close>

definition validate_paths :: "world \<Rightarrow> string \<Rightarrow> string \<Rightarrow> bool \<times> (string \<times> string) list" where
  "validate_paths w src dst_folder =
     (if src = [] \<or> \<not> os_path_exists w src then
        (False, [(''Error'', ''Invalid source path.'')])
      else if dst_folder = [] \<or> \<not> os_path_exists w dst_folder then
        (False, [(''Error'', ''Invalid destination path.'')])
      else if os_path_isdir w src \<and> \<not> os_path_isdir w dst_folder then
        (False, [(''Error'', ''Cannot move a folder into a path that is not a folder.'')])
      else (True, []))"

subsection \<open>The operation orchestrator: commit\<close>

datatype commit_outcome = Rejected | Failed exn | Completed

text \<open>\<^verbatim>\<open>SymlinkGUI.run_symlink_process\<close>, from the texts of the two entry fields. Every
  exception raised inside the \<^verbatim>\<open>try\<close> block is handled by one of its \<^verbatim>\<open>except\<close> clauses,
  so the effects made before it stay.\<close>

definition run_symlink_process :: "world \<Rightarrow> string \<Rightarrow> string \<Rightarrow> commit_outcome \<times> world" where
  "run_symlink_process w source_entry dest_entry =
     (let src = strip source_entry; dst_folder = strip dest_entry
      in if \<not> fst (validate_paths w src dst_folder) then (Rejected, w)
         else (case move_item w src dst_folder of
                 (Inl e, w1) \<Rightarrow> (Failed e, w1)
               | (Inr new_location, w1) \<Rightarrow>
                   (case create_symlink w1 src new_location of
                      (Inl e, w2) \<Rightarrow> (Failed e, w2)
                    | (Inr u, w2) \<Rightarrow>
                        (case py_append (load_history w2) (mk_record src new_location src) of
                           Inl e \<Rightarrow> (Failed e, w2)
                         | Inr history_list \<Rightarrow>
                             (case save_history w2 history_list of
                                (Inl e, w3) \<Rightarrow> (Failed e, w3)
                              | (Inr u', w3) \<Rightarrow> (Completed, w3))))))"

subsection \<open>The history window: revert\<close>

text \<open>The window keeps the ledger it loaded when it was opened (\<open>history\<close>) and one tree
  row per record, holding the three values shown. The tree widget is taken to hand back
  the values it was given.\<close>

record history_window =
  history :: json
  tree :: "(nat \<times> json \<times> json \<times> json) list"

fun tree_values :: "json list \<Rightarrow> exn + (json \<times> json \<times> json) list" where
  "tree_values [] = Inr []"
| "tree_values (r # rs) =
     (case py_getitem r ''original_src'' of
        Inl e \<Rightarrow> Inl e
      | Inr a \<Rightarrow>
          (case py_getitem r ''final_dst'' of
             Inl e \<Rightarrow> Inl e
           | Inr b \<Rightarrow>
               (case py_getitem r ''symlink_path'' of
                  Inl e \<Rightarrow> Inl e
                | Inr c \<Rightarrow>
                    (case tree_values rs of
                       Inl e \<Rightarrow> Inl e
                     | Inr vs \<Rightarrow> Inr ((a, b, c) # vs)))))"

definition HistoryWindow_init :: "world \<Rightarrow> exn + history_window" where
  "HistoryWindow_init w =
     (let h = load_history w
      in case py_iter h of
           Inl e \<Rightarrow> Inl e
         | Inr rs \<Rightarrow>
             (case tree_values rs of
                Inl e \<Rightarrow> Inl e
              | Inr vs \<Rightarrow> Inr \<lparr>history = h, tree = zip [0..<length vs] vs\<rparr>))"

text \<open>\<^verbatim>\<open>[record for record in self.history if record["symlink_path"] != symlink_path]\<close>\<close>

fun keep_others :: "json list \<Rightarrow> string \<Rightarrow> exn + json list" where
  "keep_others [] key = Inr []"
| "keep_others (r # rs) key =
     (case py_getitem r ''symlink_path'' of
        Inl e \<Rightarrow> Inl e
      | Inr v \<Rightarrow>
          (case keep_others rs key of
             Inl e \<Rightarrow> Inl e
           | Inr ks \<Rightarrow> Inr (if v \<noteq> JStr key then r # ks else ks)))"

datatype revert_outcome = NoSelection | BadItem | RevertFailed exn | Reverted

text \<open>\<^verbatim>\<open>HistoryWindow.revert_selected\<close>; \<open>sel\<close> is the tree item that has the focus.\<close>

definition revert_selected ::
  "history_window \<Rightarrow> nat option \<Rightarrow> world \<Rightarrow> revert_outcome \<times> history_window \<times> world" where
  "revert_selected win sel w =
     (case sel of
        None \<Rightarrow> (NoSelection, win, w)
      | Some i \<Rightarrow>
          (case map_of (tree win) i of
             None \<Rightarrow> (BadItem, win, w)
           | Some (JStr original_src, JStr final_dst, JStr symlink_path) \<Rightarrow>
               (case remove_symlink w symlink_path of
                  (Inl e, w1) \<Rightarrow> (RevertFailed e, win, w1)
                | (Inr u, w1) \<Rightarrow>
                    (case shutil_move w1 final_dst original_src of
                       (Inl e, w2) \<Rightarrow> (RevertFailed e, win, w2)
                     | (Inr r, w2) \<Rightarrow>
                         (case py_iter (history win) of
                            Inl e \<Rightarrow> (RevertFailed e, win, w2)
                          | Inr rs \<Rightarrow>
                              (case keep_others rs symlink_path of
                                 Inl e \<Rightarrow> (RevertFailed e, win, w2)
                               | Inr ks \<Rightarrow>
                                   (case save_history w2 (JArr ks) of
                                      (Inl e, w3) \<Rightarrow> (RevertFailed e, win\<lparr>history := JArr ks\<rparr>, w3)
                                    | (Inr u', w3) \<Rightarrow>
                                        (Reverted,
                                         win\<lparr>history := JArr ks,
                                             tree := filter (\<lambda>row. fst row \<noteq> i) (tree win)\<rparr>,
                                         w3))))))
           | Some other \<Rightarrow> (RevertFailed TypeError, win, w)))"

text \<open>The ledger contract as the specification words it:
  \<^verbatim>\<open>removeByKey(symlinkPath) = save([r for r in load() if r.symlink_path != symlinkPath])\<close>.\<close>

definition removeByKey :: "world \<Rightarrow> string \<Rightarrow> (exn + unit) \<times> world" where
  "removeByKey w symlinkPath =
     (case py_iter (load_history w) of
        Inl e \<Rightarrow> (Inl e, w)
      | Inr rs \<Rightarrow>
          (case keep_others rs symlinkPath of
             Inl e \<Rightarrow> (Inl e, w)
           | Inr ks \<Rightarrow> save_history w (JArr ks)))"

subsection \<open>The names a commit can change and the names the ledger is read through\<close>

text \<open>The names the ledger is read through: the ledger path and every link target on the
  way to its file.\<close>

fun chain :: "nat \<Rightarrow> (path \<Rightarrow> node option) \<Rightarrow> path \<Rightarrow> path list" where
  "chain 0 f p = [p]"
| "chain (Suc n) f p = (case f p of Some (Link k t) \<Rightarrow> p # chain n f t | _ \<Rightarrow> [p])"

definition ledger_names :: "world \<Rightarrow> path list" where
  "ledger_names w = chain max_links (fs w) HISTORY_FILE"

text \<open>The places a commit of \<open>src\<close> into \<open>dst_folder\<close> can change: \<open>src\<close>, the new location,
  and the place inside the new location where \<^verbatim>\<open>shutil.move\<close> puts the item when the new
  location is a directory already.\<close>

definition touched :: "world \<Rightarrow> path \<Rightarrow> path \<Rightarrow> path list" where
  "touched w src dst_folder =
     (let item_name = basename (windows w) (rstrip_seps src);
          new_location = join (windows w) dst_folder item_name
      in [src, new_location, join (windows w) new_location item_name])"

text \<open>The commit stays clear of the ledger: no name the ledger is read through is one of
  these places or lies below one of them.\<close>

definition ledger_apart :: "world \<Rightarrow> path \<Rightarrow> path \<Rightarrow> bool" where
  "ledger_apart w src dst_folder =
     list_all (\<lambda>q. list_all (\<lambda>d. \<not> under (windows w) d q) (touched w src dst_folder))
       (ledger_names w)"

subsection \<open>Concrete worlds\<close>

text \<open>A Windows host after one commit of \<open>a\<close> into \<open>d\<close>: the ledger holds its record, the
  link stands at \<open>a\<close>, and a second file \<open>b\<close> waits to be moved.\<close>

definition ex_record_a :: json where
  "ex_record_a = mk_record ''a'' (''d'' @ [backslash] @ ''a'') ''a''"

definition ex_record_b :: json where
  "ex_record_b = mk_record ''b'' (''d'' @ [backslash] @ ''b'') ''b''"

definition ex_windows :: world where
  "ex_windows =
     \<lparr>fs = (\<lambda>p. None)
        (HISTORY_FILE \<mapsto> File (json_dumps (JArr [ex_record_a])),
         ''a'' \<mapsto> Link False (''d'' @ [backslash] @ ''a''),
         ''d'' \<mapsto> Dir,
         ''d'' @ [backslash] @ ''a'' \<mapsto> File ''one'',
         ''b'' \<mapsto> File ''two''),
      windows = True, mklink_denied = False\<rparr>"

text \<open>The history window opened on that world, the world after \<open>b\<close> is committed from the
  main window, and the result of reverting \<open>a\<close> in the window that is still open.\<close>

definition ex_window :: history_window where
  "ex_window = (case HistoryWindow_init ex_windows of Inr win \<Rightarrow> win
                | Inl e \<Rightarrow> \<lparr>history = JNull, tree = []\<rparr>)"

definition ex_committed :: world where
  "ex_committed = snd (run_symlink_process ex_windows ''b'' ''d'')"

definition ex_reverted :: "revert_outcome \<times> history_window \<times> world" where
  "ex_reverted = revert_selected ex_window (Some 0) ex_committed"

text \<open>A host that is not Windows, with a ledger, a folder and a file.\<close>

definition ex_posix :: world where
  "ex_posix =
     \<lparr>fs = (\<lambda>p. None)
        (HISTORY_FILE \<mapsto> File (json_dumps (JArr [mk_record ''a'' ''d/a'' ''a''])),
         ''d'' \<mapsto> Dir,
         ''b'' \<mapsto> File ''two''),
      windows = False, mklink_denied = False\<rparr>"

text \<open>A link whose target has been taken away.\<close>

definition ex_dangling :: world where
  "ex_dangling =
     \<lparr>fs = (\<lambda>p. None)(''a'' \<mapsto> Link False ''d/a'', ''d'' \<mapsto> Dir),
      windows = False, mklink_denied = False\<rparr>"

text \<open>A ledger file that holds one record, not wrapped in a list: a JSON document that
  is not a list of records.\<close>

definition ex_corrupt :: world where
  "ex_corrupt =
     \<lparr>fs = (\<lambda>p. None)(HISTORY_FILE \<mapsto> File (json_dumps (mk_record ''a'' ''d/a'' ''a''))),
      windows = True, mklink_denied = False\<rparr>"

text \<open>A destination folder \<open>b\<close> that already holds a directory named like the source.\<close>

definition ex_nested :: world where
  "ex_nested =
     \<lparr>fs = (\<lambda>p. None)
        (''a'' \<mapsto> Dir, ''a/foo'' \<mapsto> File ''seven'', ''b'' \<mapsto> Dir, ''b/foo'' \<mapsto> Dir),
      windows = False, mklink_denied = False\<rparr>"

section \<open>Properties\<close>

subsection \<open>The JSON text round trip\<close>






























lemma delimited_simps [simp]:
  "delimited []" "delimited (CHR '','' # t)" "delimited (newline_indent l @ t)"
  by (simp_all add: delimited_def newline_indent_def)













lemma dumps_items_length: "xs \<noteq> [] \<Longrightarrow> 0 < length (dumps_items l xs)"
  by (cases xs) simp_all













subsection \<open>Following links\<close>

lemma resolve_no_link:
  "0 < n \<Longrightarrow> (\<forall>k t. f p \<noteq> Some (Link k t)) \<Longrightarrow> resolve n f p = Some p"
  by (cases n) (auto split: option.splits node.splits)

lemma max_links_pos: "0 < max_links"
  by (simp add: max_links_def)

lemma stat_no_link:
  "(\<forall>k t. fs w p \<noteq> Some (Link k t)) \<Longrightarrow> stat w p = fs w p"
  by (simp add: stat_def resolve_no_link max_links_pos)


lemma exists_imp_entry: "os_path_exists w p \<Longrightarrow> fs w p \<noteq> None"
proof
  assume ex: "os_path_exists w p" and none: "fs w p = None"
  from none have "stat w p = fs w p" by (intro stat_no_link) simp
  with ex none show False by (simp add: os_path_exists_def)
qed
subsection \<open>Path validator\<close>

text \<open>
  C9. \<open>validate_paths\<close> returns false whenever the source is empty or does not exist,
  whenever the destination folder is empty or does not exist, and whenever the source is
  a directory while the destination is not; in every other case it returns true. It is a
  function of the world that returns no new world: it shows its message and changes
  nothing.
\<close>

theorem validate_paths_verdict:
  "fst (validate_paths w src dst_folder) =
     (\<not> (src = [] \<or> \<not> os_path_exists w src) \<and>
      \<not> (dst_folder = [] \<or> \<not> os_path_exists w dst_folder) \<and>
      \<not> (os_path_isdir w src \<and> \<not> os_path_isdir w dst_folder))"
  by (simp add: validate_paths_def)

theorem validate_paths_verdict_witness:
  "fst (validate_paths ex_posix ''b'' ''d'') \<and> \<not> fst (validate_paths ex_posix [] ''d'') \<and>
   \<not> fst (validate_paths ex_posix ''b'' ''nowhere'') \<and>
   \<not> fst (validate_paths ex_posix ''d'' ''b'')"
proof -
  have "os_path_exists ex_posix ''b''" "os_path_exists ex_posix ''d''"
    "\<not> os_path_isdir ex_posix ''b''" "os_path_isdir ex_posix ''d''"
    "\<not> os_path_exists ex_posix ''nowhere''"
    by code_simp+
  then show ?thesis
    using validate_paths_verdict [of ex_posix "''b''" "''d''"]
      validate_paths_verdict [of ex_posix "[]" "''d''"]
      validate_paths_verdict [of ex_posix "''b''" "''nowhere''"]
      validate_paths_verdict [of ex_posix "''d''" "''b''"]
    by simp
qed

text \<open>
  C10. A source that exists and is not a directory, paired with a destination that exists
  and is not a directory, passes the validator: the type check applies to directory
  sources only. The pair is rejected by the move step, where making sure that the
  destination is a directory fails, and the world is left as it was.
\<close>

theorem validate_accepts_file_into_file:
  assumes "src \<noteq> []" "os_path_exists w src" "\<not> os_path_isdir w src"
    and "dst_folder \<noteq> []" "os_path_exists w dst_folder" "\<not> os_path_isdir w dst_folder"
  shows "fst (validate_paths w src dst_folder) \<and>
         move_item w src dst_folder = (Inl FileExistsError, w)"
  using assms exists_imp_entry [of w dst_folder]
  by (auto simp: validate_paths_def move_item_def os_makedirs_def Let_def)

theorem validate_accepts_file_into_file_witness:
  "fst (validate_paths ex_posix ''b'' HISTORY_FILE) \<and>
   move_item ex_posix ''b'' HISTORY_FILE = (Inl FileExistsError, ex_posix)"
proof -
  have "''b'' \<noteq> []" "os_path_exists ex_posix ''b''" "\<not> os_path_isdir ex_posix ''b''"
    "HISTORY_FILE \<noteq> []" "os_path_exists ex_posix HISTORY_FILE"
    "\<not> os_path_isdir ex_posix HISTORY_FILE"
    by code_simp+
  then show ?thesis by (rule validate_accepts_file_into_file)
qed

subsection \<open>Link creator\<close>



subsection \<open>History ledger\<close>








subsection \<open>Commit\<close>





lemma os_makedirs_existing: "os_path_exists w p \<Longrightarrow> snd (os_makedirs w p) = w"
  using exists_imp_entry [of w p] by (simp add: os_makedirs_def)


lemma os_rename_windows: "os_rename w src dst = (r, w') \<Longrightarrow> windows w' = windows w"
  by (auto simp: os_rename_def split: option.splits if_splits)


lemma shutil_move_windows: "shutil_move w src dst = (r, w') \<Longrightarrow> windows w' = windows w"
  by (auto simp: shutil_move_def Let_def os_rename_windows split: if_splits prod.splits sum.splits)


lemma move_item_windows:
  assumes mv: "move_item w src dst_folder = (r, w')" and dst: "os_path_exists w dst_folder"
  shows "windows w' = windows w"
proof -
  have mk: "os_makedirs w dst_folder = (fst (os_makedirs w dst_folder), w)"
    using os_makedirs_existing [OF dst] by (simp add: prod_eq_iff)
  with mv shutil_move_windows show ?thesis
    by (cases "fst (os_makedirs w dst_folder)")
       (auto simp: move_item_def Let_def split: prod.splits sum.splits)
qed









text \<open>An ordinary ledger, a plain file or none at all, is clear of every commit but the
  commit of the ledger file itself.\<close>

lemma sep_in_seps: "sep win \<in> set (seps win)"
  by (simp add: sep_def seps_def)

lemma join_has_sep: "a \<noteq> [] \<Longrightarrow> \<exists>c \<in> set (seps win). c \<in> set (join win a b)"
  using sep_in_seps [of win]
  by (auto simp: join_def intro: hd_in_set last_in_set)

lemma history_file_no_sep: "c \<in> set (seps win) \<Longrightarrow> c \<notin> set HISTORY_FILE"
  by (auto simp: seps_def HISTORY_FILE_def backslash_def slash_def split: if_splits)

lemma join_nonempty: "a \<noteq> [] \<Longrightarrow> join win a b \<noteq> []"
  using join_has_sep [of a win b] by auto

lemma join_not_history_file: "a \<noteq> [] \<Longrightarrow> join win a b \<noteq> HISTORY_FILE"
  using join_has_sep [of a win b] history_file_no_sep by metis

lemma under_history_file: "under win d HISTORY_FILE \<Longrightarrow> d = HISTORY_FILE"
proof (rule ccontr)
  assume u: "under win d HISTORY_FILE" and ne: "d \<noteq> HISTORY_FILE"
  then have "length d < length HISTORY_FILE" and "HISTORY_FILE ! length d \<in> set (seps win)"
    by (auto simp: under_def)
  then have "\<exists>c \<in> set (seps win). c \<in> set HISTORY_FILE"
    using nth_mem by blast
  with history_file_no_sep show False by blast
qed

lemma plain_ledger_apart:
  assumes other: "src \<noteq> HISTORY_FILE" and dst: "dst_folder \<noteq> []"
    and plain: "\<forall>k t. fs w HISTORY_FILE \<noteq> Some (Link k t)"
  shows "ledger_apart w src dst_folder"
proof -
  let ?name = "basename (windows w) (rstrip_seps src)"
  let ?new = "join (windows w) dst_folder ?name"
  have names: "ledger_names w = [HISTORY_FILE]"
    using plain by (auto simp: ledger_names_def max_links_def numeral_eq_Suc
        split: option.splits node.splits)
  have "?new \<noteq> HISTORY_FILE" "join (windows w) ?new ?name \<noteq> HISTORY_FILE"
    using join_not_history_file [OF dst] join_not_history_file [OF join_nonempty [OF dst]]
    by blast+
  with other under_history_file show ?thesis
    by (auto simp: ledger_apart_def names touched_def Let_def)
qed





subsection \<open>Failing inputs\<close>

text \<open>
  C3. \<open>remove_symlink\<close> is to remove every symbolic link it is given. It asks
  \<^verbatim>\<open>os.path.exists\<close> first, which follows the link: for a link whose target is gone the
  answer is no, the call returns without an error and the link is still there.
\<close>

theorem remove_symlink_leaves_dangling_link:
  "os_path_islink ex_dangling ''a'' \<and>
   fst (remove_symlink ex_dangling ''a'') = Inr () \<and>
   fs (snd (remove_symlink ex_dangling ''a'')) ''a'' = Some (Link False ''d/a'')"
  by code_simp

text \<open>
  C5. \<open>load_history\<close> is to return a sequence of records in every case. It returns
  whatever JSON document the ledger file holds: for a file that holds one record that
  is not wrapped in a list it returns that record, a dict.
\<close>

theorem load_history_returns_non_list:
  "load_history ex_corrupt = mk_record ''a'' ''d/a'' ''a''"
  by code_simp

text \<open>
  C7. \<open>move_item\<close> is to leave the item at the location it returns. When the destination
  folder already holds a directory with the item's name, \<^verbatim>\<open>shutil.move\<close> puts the item
  inside that directory, and \<open>move_item\<close> still returns the directory's path: the item is
  gone from \<open>a/foo\<close>, it is at \<open>b/foo/foo\<close>, and \<open>b/foo\<close> is the directory that was there.
\<close>

theorem move_item_into_existing_directory:
  "fs ex_nested ''a/foo'' = Some (File ''seven'') \<and>
   fst (move_item ex_nested ''a/foo'' ''b'') = Inr ''b/foo'' \<and>
   fs (snd (move_item ex_nested ''a/foo'' ''b'')) ''a/foo'' = None \<and>
   fs (snd (move_item ex_nested ''a/foo'' ''b'')) ''b/foo'' = Some Dir \<and>
   fs (snd (move_item ex_nested ''a/foo'' ''b'')) ''b/foo/foo'' = Some (File ''seven'')"
  by code_simp

text \<open>
  C1. Revert is to save the ledger as \<open>load_history\<close> reads it at that moment, without
  the reverted record. The window filters the list it loaded when it was opened: a
  record committed since then is lost. With the window opened on the ledger \<open>[a]\<close> and
  \<open>b\<close> committed afterwards, reverting \<open>a\<close> saves the empty ledger, where
  \<open>removeByKey\<close> saves \<open>[b]\<close>.
\<close>

theorem revert_selected_saves_stale_history:
  "HistoryWindow_init ex_windows = Inr ex_window \<and>
   fst (run_symlink_process ex_windows ''b'' ''d'') = Completed \<and>
   load_history ex_committed = JArr [ex_record_a, ex_record_b] \<and>
   fst ex_reverted = Reverted \<and>
   load_history (snd (snd ex_reverted)) = JArr [] \<and>
   fst (removeByKey ex_committed ''a'') = Inr () \<and>
   load_history (snd (removeByKey ex_committed ''a'')) = JArr [ex_record_b]"
  by code_simp

end
